theory Spec2Isabelle
  imports Main "HOL-Library.Sublist"
begin

section \<open>Target handler of taiko: a shallow embedding of lib/handlers/targetHandler.js\<close>

text \<open>
  The module keeps process-wide state (the active target and context ids, the target
  registry) and talks to a remote browser through a transport. The embedding passes that
  state explicitly, returns every thrown value as \<open>Inl\<close> of a sum, and records each
  transport call, log line and timer wait in a trace of events. The listener for a new
  session, which only sets the module's variables and subscribes to target events, is not
  part of the embedding: the active ids are fields of the session state.
\<close>

subsection \<open>JavaScript values, thrown values, truthiness\<close>

datatype jsval =
    Undefined
  | Null
  | Bool bool
  | Str string
  | Arr "jsval list"
  | Obj "(string \<times> jsval) list"

text \<open>The \<open>response\<close> object a rejected transport call may carry, with its optional message.\<close>

datatype response = Response (message: "string option")

text \<open>
  Values that are thrown: the runtime's TypeError (a property read on \<open>null\<close> or
  \<open>undefined\<close>) and URIError (a percent-encoding that cannot be decoded),
  \<open>new Error(msg)\<close>, and the rejection of a transport call, which may carry a
  \<open>response\<close>.
\<close>

datatype js_error =
    TypeError
  | URIError
  | Error string
  | Rejected "response option"

fun error_response :: "js_error \<Rightarrow> response option" where
  "error_response (Rejected r) = r"
| "error_response TypeError = None"
| "error_response URIError = None"
| "error_response (Error m) = None"

fun truthy :: "jsval \<Rightarrow> bool" where
  "truthy Undefined = False"
| "truthy Null = False"
| "truthy (Bool b) = b"
| "truthy (Str s) = (s \<noteq> [])"
| "truthy (Arr xs) = True"
| "truthy (Obj fs) = True"

text \<open>\<open>a || b\<close> on values that are already computed.\<close>

definition js_or :: "jsval \<Rightarrow> jsval \<Rightarrow> jsval" where
  "js_or a b = (if truthy a then a else b)"

text \<open>
  The property read \<open>v.targetId\<close>: it throws on \<open>undefined\<close> and \<open>null\<close>, is
  \<open>undefined\<close> on a primitive or an array (none has such a property), and is the
  field's value, or \<open>undefined\<close>, on an object.
\<close>

fun get_targetId :: "jsval \<Rightarrow> js_error + jsval" where
  "get_targetId Undefined = Inl TypeError"
| "get_targetId Null = Inl TypeError"
| "get_targetId (Bool b) = Inr Undefined"
| "get_targetId (Str s) = Inr Undefined"
| "get_targetId (Arr xs) = Inr Undefined"
| "get_targetId (Obj fs) =
     Inr (case map_of fs ''targetId'' of None \<Rightarrow> Undefined | Some v \<Rightarrow> v)"

text \<open>\<open>s.includes(sub)\<close>: \<open>sub\<close> occurs in \<open>s\<close> as a contiguous substring.\<close>

fun str_includes :: "string \<Rightarrow> string \<Rightarrow> bool" where
  "str_includes [] sub = (sub = [])"
| "str_includes (c # cs) sub = (prefix sub (c # cs) \<or> str_includes cs sub)"

text \<open>\<open>x ? x : ''\<close> on a string that may be \<open>null\<close>.\<close>

definition or_empty :: "string option \<Rightarrow> string" where
  "or_empty x = (case x of None \<Rightarrow> [] | Some s \<Rightarrow> if s \<noteq> [] then s else [])"

subsection \<open>Data model\<close>

record target =
  id_t :: string
  url :: string
  title :: string
  type :: string
  browserContextId :: "string option"

text \<open>
  An identifier is a string, a regular expression (of a type \<open>'r\<close> left to the regular
  expression engine), or an object carrying a \<open>name\<close>.
\<close>

datatype 'r ident =
    IdString string
  | IdRegex 'r
  | IdNamed string

text \<open>\<open>identifier.name\<close>: strings and regular expressions have no such property.\<close>

fun identifier_name :: "'r ident \<Rightarrow> string option" where
  "identifier_name (IdNamed n) = Some n"
| "identifier_name (IdString s) = None"
| "identifier_name (IdRegex re) = None"

text \<open>
  Modelled from the spec: \<open>isString\<close> and \<open>isRegex\<close> of lib/helper are not in the
  sources; the URL match is "applicable only when identifier is a string" and the regex
  match "only when identifier is a regular expression".
\<close>

fun isString :: "'r ident \<Rightarrow> bool" where
  "isString (IdString s) = True"
| "isString (IdRegex re) = False"
| "isString (IdNamed n) = False"

fun isRegex :: "'r ident \<Rightarrow> bool" where
  "isRegex (IdRegex re) = True"
| "isRegex (IdString s) = False"
| "isRegex (IdNamed n) = False"

text \<open>What \<open>url.parse\<close> of Node returns, as far as this module reads it.\<close>

record parsed_url =
  url_protocol :: "string option"
  url_host :: "string option"
  url_pathname :: "string option"
  url_href :: string

text \<open>
  The collaborators the matcher calls and whose code is outside the module: Node's
  \<open>url.parse(s, parseQueryString)\<close>, which throws on some strings (a URIError when the
  auth part of the URL cannot be decoded, an error on a host name it refuses), and
  \<open>path.join(a, b)\<close>; the helpers \<open>handleUrlRedirection\<close>, \<open>escapeHtml\<close> and
  \<open>trimCharLeft\<close> (which is handed a pathname that may be \<open>null\<close>, and may then
  throw); and \<open>String.prototype.match\<close> (\<open>None\<close> is \<open>null\<close>, \<open>Some\<close> the array
  of matches). They are parameters of the model.
\<close>

record 'r collaborators =
  url_parse :: "string \<Rightarrow> bool \<Rightarrow> js_error + parsed_url"
  path_join :: "string \<Rightarrow> string \<Rightarrow> string"
  handleUrlRedirection :: "string \<Rightarrow> string"
  escapeHtml :: "string \<Rightarrow> string"
  trimCharLeft :: "string option \<Rightarrow> string \<Rightarrow> js_error + string"
  string_match :: "string \<Rightarrow> 'r \<Rightarrow> jsval list option"

definition match_value :: "jsval list option \<Rightarrow> jsval" where
  "match_value m = (case m of None \<Rightarrow> Null | Some groups \<Rightarrow> Arr groups)"

subsection \<open>Target registry\<close>

type_synonym registry = "string \<rightharpoonup> string"

text \<open>
  \<open>register(name, target)\<close>: either argument may be \<open>undefined\<close> (\<open>None\<close>). With
  both truthy it stores and returns \<open>undefined\<close>; otherwise it reads. A key is only
  ever stored under a truthy name, so reading \<open>undefined\<close> finds nothing.
\<close>

definition register :: "string option \<Rightarrow> string option \<Rightarrow> registry \<Rightarrow> string option \<times> registry" where
  "register name target targetRegistry =
     (case (name, target) of
        (Some n, Some t) \<Rightarrow>
          if n \<noteq> [] \<and> t \<noteq> [] then (None, targetRegistry(n \<mapsto> t))
          else (targetRegistry n, targetRegistry)
      | (Some n, None) \<Rightarrow> (targetRegistry n, targetRegistry)
      | (None, _) \<Rightarrow> (None, targetRegistry))"

definition unregister :: "string \<Rightarrow> registry \<Rightarrow> registry" where
  "unregister name targetRegistry = targetRegistry(name := None)"

definition clearRegister :: "registry \<Rightarrow> registry" where
  "clearRegister targetRegistry = Map.empty"

text \<open>A sequence of calls on the registry, which starts empty (\<open>new Map()\<close>).\<close>

datatype registry_call =
    Register "string option" "string option"
  | Unregister string
  | ClearRegister

fun registry_step :: "registry \<Rightarrow> registry_call \<Rightarrow> registry" where
  "registry_step reg (Register name target) = snd (register name target reg)"
| "registry_step reg (Unregister name) = unregister name reg"
| "registry_step reg ClearRegister = clearRegister reg"

definition registry_after :: "registry_call list \<Rightarrow> registry" where
  "registry_after calls = foldl registry_step Map.empty calls"

text \<open>What \<open>register\<close> maintains: only truthy (non-empty) identities are ever stored.\<close>

definition stored_values_truthy :: "registry \<Rightarrow> bool" where
  "stored_values_truthy reg = (\<forall>k v. reg k = Some v \<longrightarrow> v \<noteq> [])"

subsection \<open>Identifier matcher\<close>

definition isMatchingRegex ::
  "'r collaborators \<Rightarrow> target \<Rightarrow> 'r ident \<Rightarrow> js_error + jsval" where
  "isMatchingRegex env target targetRegex =
     (case targetRegex of
        IdRegex re \<Rightarrow>
          (case url_parse env (url target) True of
             Inl e \<Rightarrow> Inl e
           | Inr parsedUrl \<Rightarrow>
               (let host = or_empty (url_host parsedUrl)
                in case trimCharLeft env (url_pathname parsedUrl) ''/'' of
                     Inl e \<Rightarrow> Inl e
                   | Inr trimmedPathname \<Rightarrow>
                       (let urlPath = path_join env host trimmedPathname
                        in case url_protocol parsedUrl of
                             None \<Rightarrow> Inl TypeError
                           | Some protocol \<Rightarrow>
                               (case trimCharLeft env (Some host) ''/'' of
                                  Inl e \<Rightarrow> Inl e
                                | Inr trimmedHost \<Rightarrow>
                                    (let urlHrefPath = protocol @ ''//'' @ trimmedHost
                                     in Inr (js_or (match_value (string_match env (title target) re))
                                            (js_or (match_value (string_match env urlPath re))
                                            (js_or (match_value (string_match env (url_href parsedUrl) re))
                                                   (match_value (string_match env urlHrefPath re))))))))))
      | _ \<Rightarrow> Inr (Bool False))"

text \<open>
  \<open>prependHttp\<close> parses a truthy \<open>targetUrl\<close> to look at its host, and throws where the
  parser does.
\<close>

definition prependHttp :: "'r collaborators \<Rightarrow> string \<Rightarrow> js_error + string" where
  "prependHttp env targetUrl =
     (if targetUrl = [] then Inr targetUrl
      else case url_parse env targetUrl False of
             Inl e \<Rightarrow> Inl e
           | Inr parsed \<Rightarrow>
               Inr (if url_host parsed = None then ''http://'' @ targetUrl else targetUrl))"

text \<open>
  \<open>isMatchingUrl\<close> assigns to \<open>target.url\<close>, so the model returns the target as the
  call leaves it, beside the result. The three parses (of the identifier in
  \<open>prependHttp\<close>, of the target's URL, of the normalized identifier) come before the
  assignment: when one of them throws, the call throws and the target is as it was.
\<close>

definition isMatchingUrl ::
  "'r collaborators \<Rightarrow> target \<Rightarrow> 'r ident \<Rightarrow> (js_error + jsval) \<times> target" where
  "isMatchingUrl env target identifier =
     (case identifier of
        IdString s \<Rightarrow>
          (case prependHttp env s of
             Inl e \<Rightarrow> (Inl e, target)
           | Inr identifier \<Rightarrow>
               (case url_parse env (url target) True of
                  Inl e \<Rightarrow> (Inl e, target)
                | Inr parsedUrl \<Rightarrow>
                    (case url_parse env identifier True of
                       Inl e \<Rightarrow> (Inl e, target)
                     | Inr parsedTargetUrl \<Rightarrow>
                         (let host = or_empty (url_host parsedUrl);
                              targetHost = or_empty (url_host parsedTargetUrl);
                              pathname = or_empty (url_pathname parsedUrl);
                              targetPathname = or_empty (url_pathname parsedTargetUrl);
                              urlPath = path_join env host pathname;
                              identifierPath = path_join env targetHost targetPathname;
                              target = target\<lparr>url := handleUrlRedirection env (url target)\<rparr>
                          in (Inr (Bool (title target = escapeHtml env identifier
                                         \<or> urlPath = (if identifierPath \<noteq> [] then identifierPath
                                                       else identifier)
                                         \<or> url_href parsedUrl = identifier)),
                              target)))))
      | _ \<Rightarrow> (Inr (Bool False), target))"

text \<open>\<open>storedTarget && storedTarget === target.id\<close>.\<close>

definition isMatchingTarget :: "registry \<Rightarrow> target \<Rightarrow> 'r ident \<Rightarrow> jsval" where
  "isMatchingTarget targetRegistry target identifier =
     (let storedTarget = fst (register (identifier_name identifier) None targetRegistry)
      in case storedTarget of
           None \<Rightarrow> Undefined
         | Some stored \<Rightarrow> if stored \<noteq> [] then Bool (stored = id_t target) else Str stored)"

subsection \<open>Transport, session state and trace\<close>

text \<open>The options object handed to \<open>Target.createTarget\<close>.\<close>

record open_options =
  opt_url :: string
  opt_browserContextId :: "string option"

text \<open>What the module does that a caller can observe besides results.\<close>

datatype event =
    ListCalled
  | CreateTargetCalled open_options
  | CreateBrowserContextCalled
  | GetTargetInfoCalled string
  | DisposeBrowserContextCalled "string option"
  | ActivateTargetCalled string
  | Logged js_error
  | Waited nat

text \<open>
  The transport (chrome-remote-interface) over a remote browser in state \<open>'s\<close>: every
  call resolves (\<open>Inr\<close>) or rejects (\<open>Inl\<close>) and leaves the remote state changed.
  \<open>Target.createTarget\<close> resolves with any value, normally an object with a
  \<open>targetId\<close>; \<open>Target.createBrowserContext\<close> and \<open>Target.getTargetInfo\<close> are
  given by the \<open>browserContextId\<close> the module destructures from their result
  (\<open>None\<close> when it is \<open>undefined\<close>).
\<close>

record 's transport =
  cri_List :: "'s \<Rightarrow> (js_error + target list) \<times> 's"
  Target_createTarget :: "open_options \<Rightarrow> 's \<Rightarrow> (js_error + jsval) \<times> 's"
  Target_createBrowserContext :: "'s \<Rightarrow> (js_error + string option) \<times> 's"
  Target_getTargetInfo :: "string \<Rightarrow> 's \<Rightarrow> (js_error + string option) \<times> 's"
  Target_disposeBrowserContext :: "string option \<Rightarrow> 's \<Rightarrow> (js_error + unit) \<times> 's"
  Target_activateTarget :: "string \<Rightarrow> 's \<Rightarrow> (js_error + unit) \<times> 's"

text \<open>The module's variables, the remote state and the trace so far.\<close>

record 's session =
  remote :: 's
  activeBrowserContextId :: "string option"
  activeTargetId :: "string option"
  targetRegistry :: registry
  events :: "event list"

definition record_event :: "event \<Rightarrow> 's session \<Rightarrow> 's session" where
  "record_event e st = st\<lparr>events := events st @ [e]\<rparr>"

definition call_List :: "'s transport \<Rightarrow> 's session \<Rightarrow> (js_error + target list) \<times> 's session" where
  "call_List tr st =
     (let (r, s') = cri_List tr (remote st)
      in (r, record_event ListCalled (st\<lparr>remote := s'\<rparr>)))"

definition call_createTarget ::
  "'s transport \<Rightarrow> open_options \<Rightarrow> 's session \<Rightarrow> (js_error + jsval) \<times> 's session" where
  "call_createTarget tr opts st =
     (let (r, s') = Target_createTarget tr opts (remote st)
      in (r, record_event (CreateTargetCalled opts) (st\<lparr>remote := s'\<rparr>)))"

definition call_createBrowserContext ::
  "'s transport \<Rightarrow> 's session \<Rightarrow> (js_error + string option) \<times> 's session" where
  "call_createBrowserContext tr st =
     (let (r, s') = Target_createBrowserContext tr (remote st)
      in (r, record_event CreateBrowserContextCalled (st\<lparr>remote := s'\<rparr>)))"

definition call_getTargetInfo ::
  "'s transport \<Rightarrow> string \<Rightarrow> 's session \<Rightarrow> (js_error + string option) \<times> 's session" where
  "call_getTargetInfo tr targetId st =
     (let (r, s') = Target_getTargetInfo tr targetId (remote st)
      in (r, record_event (GetTargetInfoCalled targetId) (st\<lparr>remote := s'\<rparr>)))"

definition call_disposeBrowserContext ::
  "'s transport \<Rightarrow> string option \<Rightarrow> 's session \<Rightarrow> (js_error + unit) \<times> 's session" where
  "call_disposeBrowserContext tr ctx st =
     (let (r, s') = Target_disposeBrowserContext tr ctx (remote st)
      in (r, record_event (DisposeBrowserContextCalled ctx) (st\<lparr>remote := s'\<rparr>)))"

definition call_activateTarget ::
  "'s transport \<Rightarrow> string \<Rightarrow> 's session \<Rightarrow> (js_error + unit) \<times> 's session" where
  "call_activateTarget tr targetId st =
     (let (r, s') = Target_activateTarget tr targetId (remote st)
      in (r, record_event (ActivateTargetCalled targetId) (st\<lparr>remote := s'\<rparr>)))"

definition logEvent :: "js_error \<Rightarrow> 's session \<Rightarrow> 's session" where
  "logEvent err st = record_event (Logged err) st"

text \<open>\<open>new Promise((r) => setTimeout(r, ms))\<close>.\<close>

definition wait_ms :: "nat \<Rightarrow> 's session \<Rightarrow> 's session" where
  "wait_ms ms st = record_event (Waited ms) st"

subsection \<open>Browser context manager\<close>

text \<open>The test of the \<open>catch\<close> handler in \<open>createTarget\<close>.\<close>

definition stale_context :: "js_error \<Rightarrow> bool" where
  "stale_context error =
     (case error_response error of
        None \<Rightarrow> False
      | Some resp \<Rightarrow>
          (case message resp of
             None \<Rightarrow> False
           | Some m \<Rightarrow>
               m \<noteq> [] \<and>
               (str_includes m ''Failed to find browser context with id''
                \<or> str_includes m ''browserContextId'')))"

text \<open>
  In \<open>createTarget\<close> the \<open>catch\<close> handler's value takes the place of the rejected
  call's result: \<open>createdTarget\<close> is what the transport resolved with, or what the
  handler returned, and \<open>createdTarget.targetId\<close> is read from either.
\<close>

definition createTarget ::
  "'s transport \<Rightarrow> string \<Rightarrow> 's session \<Rightarrow> (js_error + jsval) \<times> 's session" where
  "createTarget tr targetUrl st =
     (let openWindowOptions =
            \<lparr>opt_url = targetUrl, opt_browserContextId = activeBrowserContextId st\<rparr>;
          (r, st1) = call_createTarget tr openWindowOptions st
      in case r of
           Inr createdTarget \<Rightarrow> (get_targetId createdTarget, st1)
         | Inl error \<Rightarrow>
             if stale_context error then
               (let (r2, st2) =
                      call_createTarget tr \<lparr>opt_url = targetUrl, opt_browserContextId = None\<rparr> st1
                in case r2 of
                     Inl error2 \<Rightarrow> (Inl error2, st2)
                   | Inr created2 \<Rightarrow>
                       (case get_targetId created2 of
                          Inl e \<Rightarrow> (Inl e, st2)
                        | Inr createdTarget \<Rightarrow> (get_targetId createdTarget, st2)))
             else (Inl error, st1))"

definition createBrowserContext ::
  "'s transport \<Rightarrow> string \<Rightarrow> 's session \<Rightarrow> (js_error + jsval) \<times> 's session" where
  "createBrowserContext tr targetUrl st =
     (let (r, st1) = call_createBrowserContext tr st
      in case r of
           Inl e \<Rightarrow> (Inl e, st1)
         | Inr ctx \<Rightarrow> createTarget tr targetUrl (st1\<lparr>activeBrowserContextId := ctx\<rparr>))"

definition getBrowserContextIdForTarget ::
  "'s transport \<Rightarrow> string \<Rightarrow> 's session \<Rightarrow> (js_error + string option) \<times> 's session" where
  "getBrowserContextIdForTarget tr targetId st = call_getTargetInfo tr targetId st"

definition closeBrowserContext ::
  "'s transport \<Rightarrow> string \<Rightarrow> 's session \<Rightarrow> (js_error + bool) \<times> 's session" where
  "closeBrowserContext tr targetId st =
     (let (r, st1) = getBrowserContextIdForTarget tr targetId st
      in case r of
           Inl e \<Rightarrow> (Inl e, st1)
         | Inr ctx \<Rightarrow>
             (let (r2, st2) = call_disposeBrowserContext tr ctx st1
              in case r2 of
                   Inl e \<Rightarrow> (Inl e, st2)
                 | Inr u \<Rightarrow> (Inr (ctx = activeBrowserContextId st2), st2)))"

definition switchBrowserContext ::
  "'s transport \<Rightarrow> string \<Rightarrow> 's session \<Rightarrow> (js_error + unit) \<times> 's session" where
  "switchBrowserContext tr targetId st =
     (let (r, st1) = getBrowserContextIdForTarget tr targetId st
      in case r of
           Inl e \<Rightarrow> (Inl e, st1)
         | Inr ctx \<Rightarrow> call_activateTarget tr targetId (st1\<lparr>activeBrowserContextId := ctx\<rparr>))"

subsection \<open>Target discovery\<close>

text \<open>The body of the \<open>try\<close> block of \<open>waitForTargetToBeCreated\<close>, after the list arrived.\<close>

definition first_page :: "target list \<Rightarrow> js_error + target" where
  "first_page browserTargets =
     (if browserTargets = [] then Inl (Error ''No targets created yet!'')
      else case find (\<lambda>t. type t = ''page'') browserTargets of
             None \<Rightarrow> Inl (Error ''No targets created yet!'')
           | Some target \<Rightarrow> Inr target)"

text \<open>The whole \<open>try\<close> block: a rejected list query is caught like the block's own throws.\<close>

definition try_block :: "'s transport \<Rightarrow> 's session \<Rightarrow> (js_error + target) \<times> 's session" where
  "try_block tr st =
     (let (r, st1) = call_List tr st
      in (case r of Inl e \<Rightarrow> Inl e | Inr browserTargets \<Rightarrow> first_page browserTargets, st1))"

function waitForTargetToBeCreated ::
  "'s transport \<Rightarrow> int \<Rightarrow> 's session \<Rightarrow> (js_error + target) \<times> 's session" where
  "waitForTargetToBeCreated tr n st =
     (let (attempt, st1) = try_block tr st
      in case attempt of
           Inr target \<Rightarrow> (Inr target, st1)
         | Inl err \<Rightarrow>
             (let st2 = logEvent err st1
              in if n < 2 then (Inl err, st2)
                 else waitForTargetToBeCreated tr (n - 1) (wait_ms 100 st2)))"
  by pat_completeness auto
termination
  by (relation "measure (\<lambda>(tr, n, st). nat n)") auto

record criTargets =
  matching :: "target list"
  others :: "target list"

text \<open>
  The test \<open>!identifier\<close>: the argument left out (\<open>None\<close>) and the empty string are
  falsy and give \<open>None\<close>; any other identifier is handed on.
\<close>

fun given_identifier :: "'r ident option \<Rightarrow> 'r ident option" where
  "given_identifier None = None"
| "given_identifier (Some (IdString s)) = (if s = [] then None else Some (IdString s))"
| "given_identifier (Some (IdRegex re)) = Some (IdRegex re)"
| "given_identifier (Some (IdNamed n)) = Some (IdNamed n)"

text \<open>
  The \<open>for\<close> loop of \<open>getCriTargets\<close>. The three matchers are tried in order and the
  next one only when the one before gave a falsy value; a matcher that throws ends the
  loop; the target pushed is the one \<open>isMatchingUrl\<close> has assigned to.
\<close>

fun match_pages ::
  "'r collaborators \<Rightarrow> registry \<Rightarrow> 'r ident \<Rightarrow> target list \<Rightarrow> criTargets \<Rightarrow> js_error + criTargets" where
  "match_pages env reg identifier [] response = Inr response"
| "match_pages env reg identifier (t # pages) response =
     (let (urlResult, target) = isMatchingUrl env t identifier
      in case urlResult of
           Inl e \<Rightarrow> Inl e
         | Inr byUrl \<Rightarrow>
             if truthy byUrl
             then match_pages env reg identifier pages
                    (response\<lparr>matching := matching response @ [target]\<rparr>)
             else case isMatchingRegex env target identifier of
                    Inl e \<Rightarrow> Inl e
                  | Inr byRegex \<Rightarrow>
                      if truthy byRegex \<or> truthy (isMatchingTarget reg target identifier)
                      then match_pages env reg identifier pages
                             (response\<lparr>matching := matching response @ [target]\<rparr>)
                      else match_pages env reg identifier pages
                             (response\<lparr>others := others response @ [target]\<rparr>))"

definition getCriTargets ::
  "'r collaborators \<Rightarrow> 's transport \<Rightarrow> 'r ident option \<Rightarrow> 's session
     \<Rightarrow> (js_error + criTargets) \<times> 's session" where
  "getCriTargets env tr identifier st =
     (let (r, st1) = call_List tr st
      in case r of
           Inl e \<Rightarrow> (Inl e, st1)
         | Inr targets \<Rightarrow>
             (let pages = filter (\<lambda>target. type target = ''page'') targets
              in case given_identifier identifier of
                   None \<Rightarrow>
                     (Inr \<lparr>matching = filter (\<lambda>target. Some (id_t target) = activeTargetId st1) pages,
                           others = filter (\<lambda>target. Some (id_t target) \<noteq> activeTargetId st1) pages\<rparr>,
                      st1)
                 | Some ident \<Rightarrow>
                     (match_pages env (targetRegistry st1) ident pages \<lparr>matching = [], others = []\<rparr>,
                      st1)))"

subsection \<open>The URL match as the specification words it\<close>


subsection \<open>Concrete collaborators, targets and transports for the examples\<close>

text \<open>
  The values Node's \<open>url.parse\<close> gives on the URLs of the examples. On
  \<open>http://%@example.com\<close> it throws a URIError: the auth part \<open>%\<close> cannot be
  decoded. Any string not listed is taken to have no scheme, as \<open>example.com\<close>,
  \<open>nomatch.org\<close> and \<open>example.com/page\<close> have none: Node then reports no protocol
  and no host, and the whole string as the pathname.
\<close>

definition example_url_parse :: "string \<Rightarrow> bool \<Rightarrow> js_error + parsed_url" where
  "example_url_parse s parseQueryString =
     (if s = ''http://%@example.com'' then Inl URIError
      else if s = ''http://example.com/'' \<or> s = ''http://example.com''
      then Inr \<lparr>url_protocol = Some ''http:'', url_host = Some ''example.com'',
                url_pathname = Some ''/'', url_href = ''http://example.com/''\<rparr>
      else if s = ''http://www.example.com/''
      then Inr \<lparr>url_protocol = Some ''http:'', url_host = Some ''www.example.com'',
                url_pathname = Some ''/'', url_href = ''http://www.example.com/''\<rparr>
      else if s = ''http://nomatch.org''
      then Inr \<lparr>url_protocol = Some ''http:'', url_host = Some ''nomatch.org'',
                url_pathname = Some ''/'', url_href = ''http://nomatch.org/''\<rparr>
      else Inr \<lparr>url_protocol = None, url_host = None, url_pathname = Some s, url_href = s\<rparr>)"

text \<open>
  \<open>path.join\<close> on two segments that have no \<open>.\<close> or \<open>..\<close> part and no doubled
  separator of their own; the helpers on the strings of the examples; a regular expression
  engine for literal patterns, which match where they occur.
\<close>

definition example_path_join :: "string \<Rightarrow> string \<Rightarrow> string" where
  "example_path_join a b =
     (if a = [] then (if b = [] then ''.'' else b)
      else if b = [] then a
      else if prefix ''/'' b then a @ b
      else a @ ''/'' @ b)"

definition example_handleUrlRedirection :: "string \<Rightarrow> string" where
  "example_handleUrlRedirection u =
     (if u = ''http://www.example.com/'' then ''http://example.com''
      else if u \<noteq> [] \<and> last u = CHR ''/'' then butlast u
      else u)"

definition example_trimCharLeft :: "string option \<Rightarrow> string \<Rightarrow> js_error + string" where
  "example_trimCharLeft baseString c =
     (case baseString of
        None \<Rightarrow> Inl TypeError
      | Some s \<Rightarrow> Inr (dropWhile (\<lambda>x. [x] = c) s))"

definition example_env :: "string collaborators" where
  "example_env =
     \<lparr>url_parse = example_url_parse,
      path_join = example_path_join,
      handleUrlRedirection = example_handleUrlRedirection,
      escapeHtml = (\<lambda>s. s),
      trimCharLeft = example_trimCharLeft,
      string_match = (\<lambda>s re. if str_includes s re then Some [Str re] else None)\<rparr>"

text \<open>
  A remote browser whose state counts the calls it has served. Its list query answers from
  a script, then with the empty list; \<open>example_create\<close> rejects a context id as unknown
  and creates the target \<open>T2\<close> without one.
\<close>

definition example_page :: target where
  "example_page =
     \<lparr>id_t = ''T1'', url = ''http://example.com/'', title = ''Example Domain'',
      type = ''page'', browserContextId = None\<rparr>"

definition example_transport ::
  "(js_error + target list) list \<Rightarrow> (open_options \<Rightarrow> js_error + jsval) \<Rightarrow> nat transport" where
  "example_transport listScript create =
     \<lparr>cri_List = (\<lambda>k. (if k < length listScript then listScript ! k else Inr [], Suc k)),
      Target_createTarget = (\<lambda>opts k. (create opts, Suc k)),
      Target_createBrowserContext = (\<lambda>k. (Inr (Some ''ctx2''), Suc k)),
      Target_getTargetInfo = (\<lambda>targetId k. (Inr (Some ''ctx1''), Suc k)),
      Target_disposeBrowserContext = (\<lambda>ctx k. (Inr (), Suc k)),
      Target_activateTarget = (\<lambda>targetId k. (Inr (), Suc k))\<rparr>"

definition example_create :: "open_options \<Rightarrow> js_error + jsval" where
  "example_create opts =
     (case opt_browserContextId opts of
        Some ctx \<Rightarrow>
          Inl (Rejected (Some (Response (Some (''Failed to find browser context with id '' @ ctx)))))
      | None \<Rightarrow> Inr (Obj [(''targetId'', Str ''T2'')]))"

text \<open>The same browser with one call, named by \<open>rpc\<close>, out of order: it rejects every time.\<close>

definition example_broken_transport :: "string \<Rightarrow> nat transport" where
  "example_broken_transport rpc =
     \<lparr>cri_List =
        (\<lambda>k. (if rpc = ''List'' then Inl (Rejected None) else Inr [example_page], Suc k)),
      Target_createTarget =
        (\<lambda>opts k. (if rpc = ''createTarget'' then Inl (Rejected None) else example_create opts, Suc k)),
      Target_createBrowserContext =
        (\<lambda>k. (if rpc = ''createBrowserContext'' then Inl (Rejected None) else Inr (Some ''ctx2''),
              Suc k)),
      Target_getTargetInfo =
        (\<lambda>targetId k. (if rpc = ''getTargetInfo'' then Inl (Rejected None) else Inr (Some ''ctx1''),
                       Suc k)),
      Target_disposeBrowserContext =
        (\<lambda>ctx k. (if rpc = ''disposeBrowserContext'' then Inl (Rejected None) else Inr (), Suc k)),
      Target_activateTarget =
        (\<lambda>targetId k. (if rpc = ''activateTarget'' then Inl (Rejected None) else Inr (), Suc k))\<rparr>"

definition example_session :: "nat session" where
  "example_session =
     \<lparr>remote = 0, activeBrowserContextId = Some ''ctx1'', activeTargetId = Some ''T1'',
      targetRegistry = Map.empty, events = []\<rparr>"

section \<open>Properties\<close>

subsection \<open>The guards of the matchers\<close>

lemma isMatchingUrl_not_string:
  "\<not> isString ident \<Longrightarrow> isMatchingUrl env target ident = (Inr (Bool False), target)"
  by (cases ident) (simp_all add: isMatchingUrl_def)

lemma isMatchingRegex_not_regex:
  "\<not> isRegex ident \<Longrightarrow> isMatchingRegex env target ident = Inr (Bool False)"
  by (cases ident) (simp_all add: isMatchingRegex_def)

subsection \<open>One attempt of the polling loop\<close>

lemma call_List_eq:
  "cri_List tr (remote st) = (r, s') \<Longrightarrow>
   call_List tr st = (r, st\<lparr>remote := s', events := events st @ [ListCalled]\<rparr>)"
  by (simp add: call_List_def record_event_def)

lemma try_block_eq:
  "cri_List tr (remote st) = (r, s') \<Longrightarrow>
   try_block tr st =
     (case r of Inl e \<Rightarrow> Inl e | Inr ts \<Rightarrow> first_page ts,
      st\<lparr>remote := s', events := events st @ [ListCalled]\<rparr>)"
  by (simp add: try_block_def call_List_eq)

lemma first_page_None:
  "find (\<lambda>t. type t = ''page'') ts = None \<Longrightarrow> first_page ts = Inl (Error ''No targets created yet!'')"
  by (simp add: first_page_def)

lemma first_page_Some:
  "find (\<lambda>t. type t = ''page'') ts = Some target \<Longrightarrow> first_page ts = Inr target"
  by (auto simp add: first_page_def)

lemma wait_success:
  assumes "try_block tr st = (Inr target, st1)"
  shows "waitForTargetToBeCreated tr n st = (Inr target, st1)"
  by (subst waitForTargetToBeCreated.simps) (simp add: assms)

lemma wait_last_attempt:
  assumes "try_block tr st = (Inl err, st1)" and "n < 2"
  shows "waitForTargetToBeCreated tr n st = (Inl err, logEvent err st1)"
  by (subst waitForTargetToBeCreated.simps) (simp add: assms)

lemma wait_retry:
  assumes "try_block tr st = (Inl err, st1)" and "\<not> n < 2"
  shows "waitForTargetToBeCreated tr n st =
           waitForTargetToBeCreated tr (n - 1) (wait_ms 100 (logEvent err st1))"
  by (subst waitForTargetToBeCreated.simps) (simp add: assms)

subsection \<open>Bounded polling for the first page target\<close>

text \<open>
  Claim C4. \<open>waitForTargetToBeCreated(3)\<close> against a list that has no page target at
  any of three queries queries the list exactly three times, logs the failure each time,
  waits 100ms between consecutive queries, and then throws the "No targets created yet!"
  error. When the second query has a page target, that target (the first of type page) is
  returned after two queries and one wait, and no third query is made.
\<close>

theorem waitForTargetToBeCreated_three_attempts:
  fixes tr :: "'s transport" and st :: "'s session"
  assumes q1: "cri_List tr (remote st) = (Inr ts1, s1)"
      and q2: "cri_List tr s1 = (Inr ts2, s2)"
      and none1: "find (\<lambda>t. type t = ''page'') ts1 = None"
  shows "(\<forall>ts3 s3.
            cri_List tr s2 = (Inr ts3, s3)
            \<and> find (\<lambda>t. type t = ''page'') ts2 = None
            \<and> find (\<lambda>t. type t = ''page'') ts3 = None \<longrightarrow>
            waitForTargetToBeCreated tr 3 st =
              (Inl (Error ''No targets created yet!''),
               st\<lparr>remote := s3,
                  events := events st @
                    [ListCalled, Logged (Error ''No targets created yet!''), Waited 100,
                     ListCalled, Logged (Error ''No targets created yet!''), Waited 100,
                     ListCalled, Logged (Error ''No targets created yet!'')]\<rparr>))
       \<and> (\<forall>target.
            find (\<lambda>t. type t = ''page'') ts2 = Some target \<longrightarrow>
            waitForTargetToBeCreated tr 3 st =
              (Inr target,
               st\<lparr>remote := s2,
                  events := events st @
                    [ListCalled, Logged (Error ''No targets created yet!''), Waited 100,
                     ListCalled]\<rparr>))"
proof -
  let ?E = "Error ''No targets created yet!''"
  let ?st1 = "st\<lparr>remote := s1, events := events st @ [ListCalled]\<rparr>"
  let ?st1' = "wait_ms 100 (logEvent ?E ?st1)"
  have t1: "try_block tr st = (Inl ?E, ?st1)"
    by (simp add: try_block_eq [OF q1] first_page_None [OF none1])
  have step1: "waitForTargetToBeCreated tr 3 st = waitForTargetToBeCreated tr 2 ?st1'"
    using wait_retry [OF t1, of 3] by simp
  have r1: "remote ?st1' = s1"
    by (simp add: wait_ms_def logEvent_def record_event_def)
  have q2': "cri_List tr (remote ?st1') = (Inr ts2, s2)"
    using q2 r1 by simp
  let ?st2 = "?st1'\<lparr>remote := s2, events := events ?st1' @ [ListCalled]\<rparr>"
  have second: "waitForTargetToBeCreated tr 3 st =
      (Inr target, st\<lparr>remote := s2, events := events st @ [ListCalled, Logged ?E, Waited 100, ListCalled]\<rparr>)"
    if found: "find (\<lambda>t. type t = ''page'') ts2 = Some target" for target
  proof -
    have "try_block tr ?st1' = (Inr target, ?st2)"
      by (simp add: try_block_eq [OF q2'] first_page_Some [OF found])
    from wait_success [OF this, of 2] step1 show ?thesis
      by (simp add: wait_ms_def logEvent_def record_event_def)
  qed
  have first: "waitForTargetToBeCreated tr 3 st =
      (Inl ?E, st\<lparr>remote := s3, events := events st @
          [ListCalled, Logged ?E, Waited 100, ListCalled, Logged ?E, Waited 100,
           ListCalled, Logged ?E]\<rparr>)"
    if q3: "cri_List tr s2 = (Inr ts3, s3)"
      and none2: "find (\<lambda>t. type t = ''page'') ts2 = None"
      and none3: "find (\<lambda>t. type t = ''page'') ts3 = None" for ts3 s3
  proof -
    have t2: "try_block tr ?st1' = (Inl ?E, ?st2)"
      by (simp add: try_block_eq [OF q2'] first_page_None [OF none2])
    let ?st2' = "wait_ms 100 (logEvent ?E ?st2)"
    have step2: "waitForTargetToBeCreated tr 2 ?st1' = waitForTargetToBeCreated tr 1 ?st2'"
      using wait_retry [OF t2, of 2] by simp
    have q3': "cri_List tr (remote ?st2') = (Inr ts3, s3)"
      using q3 by (simp add: wait_ms_def logEvent_def record_event_def)
    let ?st3 = "?st2'\<lparr>remote := s3, events := events ?st2' @ [ListCalled]\<rparr>"
    have t3: "try_block tr ?st2' = (Inl ?E, ?st3)"
      by (simp add: try_block_eq [OF q3'] first_page_None [OF none3])
    from wait_last_attempt [OF t3, of 1] step1 step2 show ?thesis
      by (simp add: wait_ms_def logEvent_def record_event_def)
  qed
  from first second show ?thesis by blast
qed


theorem waitForTargetToBeCreated_three_attempts_witness:
  "waitForTargetToBeCreated (example_transport [] example_create) 3 example_session =
     (Inl (Error ''No targets created yet!''),
      example_session\<lparr>remote := 3,
        events :=
          [ListCalled, Logged (Error ''No targets created yet!''), Waited 100,
           ListCalled, Logged (Error ''No targets created yet!''), Waited 100,
           ListCalled, Logged (Error ''No targets created yet!'')]\<rparr>)
   \<and> waitForTargetToBeCreated
         (example_transport [Inr [], Inr [example_page]] example_create) 3 example_session =
       (Inr example_page,
        example_session\<lparr>remote := 2,
          events :=
            [ListCalled, Logged (Error ''No targets created yet!''), Waited 100, ListCalled]\<rparr>)"
proof -
  have page: "find (\<lambda>t. type t = ''page'') [example_page] = Some example_page"
    by (simp add: example_page_def)
  have a: "waitForTargetToBeCreated (example_transport [] example_create) 3 example_session =
     (Inl (Error ''No targets created yet!''),
      example_session\<lparr>remote := 3,
        events :=
          [ListCalled, Logged (Error ''No targets created yet!''), Waited 100,
           ListCalled, Logged (Error ''No targets created yet!''), Waited 100,
           ListCalled, Logged (Error ''No targets created yet!'')]\<rparr>)"
    using waitForTargetToBeCreated_three_attempts
      [where tr = "example_transport [] example_create" and st = example_session
         and ?ts1.0 = "[]" and ?s1.0 = 1 and ?ts2.0 = "[]" and ?s2.0 = 2]
    by (simp add: example_transport_def example_session_def)
  have b: "waitForTargetToBeCreated
         (example_transport [Inr [], Inr [example_page]] example_create) 3 example_session =
       (Inr example_page,
        example_session\<lparr>remote := 2,
          events :=
            [ListCalled, Logged (Error ''No targets created yet!''), Waited 100, ListCalled]\<rparr>)"
    using waitForTargetToBeCreated_three_attempts
      [where tr = "example_transport [Inr [], Inr [example_page]] example_create"
         and st = example_session
         and ?ts1.0 = "[]" and ?s1.0 = 1 and ?ts2.0 = "[example_page]" and ?s2.0 = 2] page
    by (simp add: example_transport_def example_session_def)
  from a b show ?thesis by simp
qed

subsection \<open>Creating a target when the active context is stale\<close>

lemma call_createTarget_eq:
  "Target_createTarget tr opts (remote st) = (r, s') \<Longrightarrow>
   call_createTarget tr opts st =
     (r, st\<lparr>remote := s', events := events st @ [CreateTargetCalled opts]\<rparr>)"
  by (simp add: call_createTarget_def record_event_def)

text \<open>
  Claim C1. When the first \<open>Target.createTarget\<close> call is rejected with a message
  naming an unknown browser context, \<open>createTarget\<close> calls the transport exactly once
  more, without a context id. The claim has it return the new target's id; the handler of
  the rejection already returns the \<open>targetId\<close> of the second result, and the function
  then reads \<open>targetId\<close> of that string, so what it returns is \<open>undefined\<close>.
\<close>

theorem createTarget_fallback_returns_undefined:
  assumes first: "Target_createTarget tr
                    \<lparr>opt_url = u, opt_browserContextId = activeBrowserContextId st\<rparr> (remote st)
                  = (Inl error, s1)"
      and stale: "stale_context error"
      and second: "Target_createTarget tr \<lparr>opt_url = u, opt_browserContextId = None\<rparr> s1
                   = (Inr (Obj [(''targetId'', Str newId)]), s2)"
  shows "createTarget tr u st =
           (Inr Undefined,
            st\<lparr>remote := s2,
               events := events st @
                 [CreateTargetCalled \<lparr>opt_url = u, opt_browserContextId = activeBrowserContextId st\<rparr>,
                  CreateTargetCalled \<lparr>opt_url = u, opt_browserContextId = None\<rparr>]\<rparr>)"
proof -
  let ?st1 = "st\<lparr>remote := s1, events := events st @
      [CreateTargetCalled \<lparr>opt_url = u, opt_browserContextId = activeBrowserContextId st\<rparr>]\<rparr>"
  have c1: "call_createTarget tr \<lparr>opt_url = u, opt_browserContextId = activeBrowserContextId st\<rparr> st
            = (Inl error, ?st1)"
    by (rule call_createTarget_eq [OF first])
  have "Target_createTarget tr \<lparr>opt_url = u, opt_browserContextId = None\<rparr> (remote ?st1)
        = (Inr (Obj [(''targetId'', Str newId)]), s2)"
    using second by simp
  from call_createTarget_eq [OF this]
  have c2: "call_createTarget tr \<lparr>opt_url = u, opt_browserContextId = None\<rparr> ?st1
            = (Inr (Obj [(''targetId'', Str newId)]),
               ?st1\<lparr>remote := s2, events := events ?st1 @
                  [CreateTargetCalled \<lparr>opt_url = u, opt_browserContextId = None\<rparr>]\<rparr>)" .
  show ?thesis
    by (simp add: createTarget_def c1 c2 stale)
qed

theorem createTarget_fallback_returns_undefined_witness:
  "stale_context (Rejected (Some (Response (Some ''Failed to find browser context with id ctx1''))))
   \<and> createTarget (example_transport [] example_create) ''http://example.com'' example_session =
       (Inr Undefined,
        example_session\<lparr>remote := 2,
          events :=
            [CreateTargetCalled \<lparr>opt_url = ''http://example.com'', opt_browserContextId = Some ''ctx1''\<rparr>,
             CreateTargetCalled \<lparr>opt_url = ''http://example.com'', opt_browserContextId = None\<rparr>]\<rparr>)"
proof -
  have s: "stale_context (Rejected (Some (Response (Some ''Failed to find browser context with id ctx1''))))"
    by (simp add: stale_context_def)
  from createTarget_fallback_returns_undefined
      [where tr = "example_transport [] example_create" and st = example_session
         and u = "''http://example.com''" and ?s1.0 = 1 and ?s2.0 = 2 and newId = "''T2''"
         and error = "Rejected (Some (Response (Some ''Failed to find browser context with id ctx1'')))",
       OF _ s]
  show ?thesis using s
    by (simp add: example_transport_def example_session_def example_create_def)
qed

subsection \<open>The regular-expression match on a URL without a scheme\<close>

text \<open>
  Claim C2. The claim has the three matching functions never throw on a malformed URL,
  with absent host, pathname and protocol read as empty strings. \<open>isMatchingRegex\<close>
  gives the host that default but calls \<open>concat\<close> on the protocol as it is: for a URL
  whose parse has no protocol it throws a TypeError whenever the identifier is a regular
  expression.
\<close>

theorem isMatchingRegex_throws_without_protocol:
  assumes "url_parse env (url target) True = Inr parsedUrl"
      and "url_protocol parsedUrl = None"
      and "trimCharLeft env (url_pathname parsedUrl) ''/'' = Inr p"
  shows "isMatchingRegex env target (IdRegex re) = Inl TypeError"
  using assms by (simp add: isMatchingRegex_def Let_def)

theorem isMatchingRegex_throws_without_protocol_witness:
  "url_parse example_env ''example.com/page'' True =
     Inr \<lparr>url_protocol = None, url_host = None, url_pathname = Some ''example.com/page'',
          url_href = ''example.com/page''\<rparr>
   \<and> isMatchingRegex example_env (example_page\<lparr>url := ''example.com/page''\<rparr>) (IdRegex ''example'')
       = Inl TypeError"
  using isMatchingRegex_throws_without_protocol
      [where env = example_env and target = "example_page\<lparr>url := ''example.com/page''\<rparr>"
         and p = "''example.com/page''" and re = "''example''"
         and parsedUrl = "\<lparr>url_protocol = None, url_host = None,
                           url_pathname = Some ''example.com/page'',
                           url_href = ''example.com/page''\<rparr>"]
  by (simp add: example_env_def example_url_parse_def example_trimCharLeft_def example_page_def)

subsection \<open>Which URL the URL match compares\<close>





subsection \<open>Errors of the transport\<close>

lemma try_block_rejected:
  "fst (cri_List tr (remote st)) = Inl e \<Longrightarrow>
   try_block tr st =
     (Inl e, st\<lparr>remote := snd (cri_List tr (remote st)), events := events st @ [ListCalled]\<rparr>)"
  by (cases "cri_List tr (remote st)") (simp add: try_block_def call_List_eq)

lemma getCriTargets_rejected:
  "fst (cri_List tr (remote st)) = Inl e \<Longrightarrow> fst (getCriTargets env tr ident st) = Inl e"
  by (cases "cri_List tr (remote st)") (simp add: getCriTargets_def call_List_eq)

lemma createTarget_rejected:
  assumes "fst (Target_createTarget tr
                  \<lparr>opt_url = u, opt_browserContextId = activeBrowserContextId st\<rparr> (remote st)) = Inl e"
      and "\<not> stale_context e"
  shows "createTarget tr u st =
           (Inl e,
            st\<lparr>remote := snd (Target_createTarget tr
                    \<lparr>opt_url = u, opt_browserContextId = activeBrowserContextId st\<rparr> (remote st)),
               events := events st @
                 [CreateTargetCalled \<lparr>opt_url = u, opt_browserContextId = activeBrowserContextId st\<rparr>]\<rparr>)"
  using assms
  by (cases "Target_createTarget tr
               \<lparr>opt_url = u, opt_browserContextId = activeBrowserContextId st\<rparr> (remote st)")
     (simp add: createTarget_def call_createTarget_eq)

lemma createTarget_fallback_rejected:
  assumes "Target_createTarget tr
             \<lparr>opt_url = u, opt_browserContextId = activeBrowserContextId st\<rparr> (remote st) = (Inl e, s1)"
      and "stale_context e"
      and "fst (Target_createTarget tr \<lparr>opt_url = u, opt_browserContextId = None\<rparr> s1) = Inl e2"
  shows "fst (createTarget tr u st) = Inl e2"
proof -
  let ?st1 = "st\<lparr>remote := s1, events := events st @
      [CreateTargetCalled \<lparr>opt_url = u, opt_browserContextId = activeBrowserContextId st\<rparr>]\<rparr>"
  obtain s2 where "Target_createTarget tr \<lparr>opt_url = u, opt_browserContextId = None\<rparr> (remote ?st1)
                   = (Inl e2, s2)"
    using assms(3) by (cases "Target_createTarget tr \<lparr>opt_url = u, opt_browserContextId = None\<rparr> s1") simp
  from call_createTarget_eq [OF this] call_createTarget_eq [OF assms(1)] assms(2)
  show ?thesis by (simp add: createTarget_def)
qed

lemma createBrowserContext_rejected:
  "fst (Target_createBrowserContext tr (remote st)) = Inl e \<Longrightarrow>
   fst (createBrowserContext tr u st) = Inl e"
  by (cases "Target_createBrowserContext tr (remote st)")
     (simp add: createBrowserContext_def call_createBrowserContext_def)

lemma getTargetInfo_rejected:
  assumes "fst (Target_getTargetInfo tr targetId (remote st)) = Inl e"
  shows "fst (getBrowserContextIdForTarget tr targetId st) = Inl e"
    and "fst (closeBrowserContext tr targetId st) = Inl e"
    and "fst (switchBrowserContext tr targetId st) = Inl e"
  using assms
  by (cases "Target_getTargetInfo tr targetId (remote st)";
      simp add: getBrowserContextIdForTarget_def closeBrowserContext_def switchBrowserContext_def
        call_getTargetInfo_def)+

lemma disposeBrowserContext_rejected:
  assumes "Target_getTargetInfo tr targetId (remote st) = (Inr ctx, s1)"
      and "fst (Target_disposeBrowserContext tr ctx s1) = Inl e"
  shows "fst (closeBrowserContext tr targetId st) = Inl e"
  using assms
  by (cases "Target_disposeBrowserContext tr ctx s1")
     (simp add: closeBrowserContext_def getBrowserContextIdForTarget_def call_getTargetInfo_def
        call_disposeBrowserContext_def record_event_def)

lemma activateTarget_rejected:
  assumes "Target_getTargetInfo tr targetId (remote st) = (Inr ctx, s1)"
      and "fst (Target_activateTarget tr targetId s1) = Inl e"
  shows "fst (switchBrowserContext tr targetId st) = Inl e"
  using assms
  by (cases "Target_activateTarget tr targetId s1")
     (simp add: switchBrowserContext_def getBrowserContextIdForTarget_def call_getTargetInfo_def
        call_activateTarget_def record_event_def)

text \<open>
  Claim C5, as stated: an error raised by the target-list query inside
  \<open>waitForTargetToBeCreated\<close> propagates to the caller unchanged. The query stands
  inside the \<open>try\<close> block, so with attempts left its rejection is caught like the "no
  targets yet" failure: when the first query is rejected and the second lists a page,
  \<open>waitForTargetToBeCreated(2)\<close> returns that page and the caller never sees the
  rejection.
\<close>

theorem list_error_retried_counterexample:
  "fst (cri_List (example_transport [Inl (Rejected None), Inr [example_page]] example_create)
          (remote example_session)) = Inl (Rejected None)
   \<and> fst (waitForTargetToBeCreated
            (example_transport [Inl (Rejected None), Inr [example_page]] example_create) 2
            example_session) = Inr example_page"
proof -
  let ?tr = "example_transport [Inl (Rejected None), Inr [example_page]] example_create"
  have t1: "try_block ?tr example_session =
              (Inl (Rejected None), example_session\<lparr>remote := 1, events := [ListCalled]\<rparr>)"
    by (simp add: try_block_def call_List_def record_event_def example_transport_def
          example_session_def)
  let ?st = "wait_ms 100 (logEvent (Rejected None) (example_session\<lparr>remote := 1, events := [ListCalled]\<rparr>))"
  have t2: "try_block ?tr ?st =
              (Inr example_page, ?st\<lparr>remote := 2, events := events ?st @ [ListCalled]\<rparr>)"
    by (simp add: try_block_def call_List_def record_event_def wait_ms_def logEvent_def
          first_page_def example_transport_def example_session_def example_page_def)
  have "waitForTargetToBeCreated ?tr 2 example_session = waitForTargetToBeCreated ?tr 1 ?st"
    using wait_retry [OF t1, of 2] by simp
  with wait_success [OF t2, of 1] show ?thesis
    by (simp add: example_transport_def example_session_def)
qed

text \<open>
  Claim C5, amended. A rejected target-list query inside \<open>waitForTargetToBeCreated\<close>
  is thrown to the caller unchanged only on the last attempt (\<open>n < 2\<close>); with attempts
  left it is logged and, after 100ms, the call goes on as \<open>waitForTargetToBeCreated(n - 1)\<close>.
  Every other rejection of a transport call is thrown to the caller unchanged: the list
  query of \<open>getCriTargets\<close>; the first \<open>Target.createTarget\<close> call of
  \<open>createTarget\<close> when it is not the stale-context condition (and then no second call is
  made), and its second call; \<open>Target.createBrowserContext\<close>; \<open>Target.getTargetInfo\<close>
  in \<open>getBrowserContextIdForTarget\<close>, \<open>closeBrowserContext\<close> and
  \<open>switchBrowserContext\<close>; \<open>Target.disposeBrowserContext\<close>; \<open>Target.activateTarget\<close>.
\<close>

theorem transport_errors_propagate_unless_list_query_retried:
  "(fst (cri_List tr (remote st)) = Inl e \<and> n < 2 \<longrightarrow>
      waitForTargetToBeCreated tr n st =
        (Inl e, st\<lparr>remote := snd (cri_List tr (remote st)),
                   events := events st @ [ListCalled, Logged e]\<rparr>))
   \<and> (fst (cri_List tr (remote st)) = Inl e \<and> \<not> n < 2 \<longrightarrow>
      waitForTargetToBeCreated tr n st =
        waitForTargetToBeCreated tr (n - 1)
          (st\<lparr>remote := snd (cri_List tr (remote st)),
              events := events st @ [ListCalled, Logged e, Waited 100]\<rparr>))
   \<and> (fst (cri_List tr (remote st)) = Inl e \<longrightarrow> fst (getCriTargets env tr ident st) = Inl e)
   \<and> (fst (Target_createTarget tr
              \<lparr>opt_url = u, opt_browserContextId = activeBrowserContextId st\<rparr> (remote st)) = Inl e
        \<and> \<not> stale_context e \<longrightarrow>
      createTarget tr u st =
        (Inl e,
         st\<lparr>remote := snd (Target_createTarget tr
                 \<lparr>opt_url = u, opt_browserContextId = activeBrowserContextId st\<rparr> (remote st)),
            events := events st @
              [CreateTargetCalled \<lparr>opt_url = u, opt_browserContextId = activeBrowserContextId st\<rparr>]\<rparr>))
   \<and> (Target_createTarget tr
          \<lparr>opt_url = u, opt_browserContextId = activeBrowserContextId st\<rparr> (remote st) = (Inl e, s1)
        \<and> stale_context e
        \<and> fst (Target_createTarget tr \<lparr>opt_url = u, opt_browserContextId = None\<rparr> s1) = Inl e2 \<longrightarrow>
      fst (createTarget tr u st) = Inl e2)
   \<and> (fst (Target_createBrowserContext tr (remote st)) = Inl e \<longrightarrow>
      fst (createBrowserContext tr u st) = Inl e)
   \<and> (fst (Target_getTargetInfo tr targetId (remote st)) = Inl e \<longrightarrow>
      fst (getBrowserContextIdForTarget tr targetId st) = Inl e
      \<and> fst (closeBrowserContext tr targetId st) = Inl e
      \<and> fst (switchBrowserContext tr targetId st) = Inl e)
   \<and> (Target_getTargetInfo tr targetId (remote st) = (Inr ctx, s1)
        \<and> fst (Target_disposeBrowserContext tr ctx s1) = Inl e \<longrightarrow>
      fst (closeBrowserContext tr targetId st) = Inl e)
   \<and> (Target_getTargetInfo tr targetId (remote st) = (Inr ctx, s1)
        \<and> fst (Target_activateTarget tr targetId s1) = Inl e \<longrightarrow>
      fst (switchBrowserContext tr targetId st) = Inl e)"
proof -
  have last: "waitForTargetToBeCreated tr n st =
        (Inl e, st\<lparr>remote := snd (cri_List tr (remote st)),
                   events := events st @ [ListCalled, Logged e]\<rparr>)"
    if "fst (cri_List tr (remote st)) = Inl e" and "n < 2"
    using wait_last_attempt [OF try_block_rejected [OF that(1)] that(2)]
    by (simp add: logEvent_def record_event_def)
  have retry: "waitForTargetToBeCreated tr n st =
        waitForTargetToBeCreated tr (n - 1)
          (st\<lparr>remote := snd (cri_List tr (remote st)),
              events := events st @ [ListCalled, Logged e, Waited 100]\<rparr>)"
    if "fst (cri_List tr (remote st)) = Inl e" and "\<not> n < 2"
    using wait_retry [OF try_block_rejected [OF that(1)] that(2)]
    by (simp add: logEvent_def wait_ms_def record_event_def)
  show ?thesis
    using last retry getCriTargets_rejected [of tr st e env ident]
      createTarget_rejected [of tr u st e] createTarget_fallback_rejected [of tr u st e s1 e2]
      createBrowserContext_rejected [of tr st e u] getTargetInfo_rejected [of tr targetId st e]
      disposeBrowserContext_rejected [of tr targetId st ctx s1 e]
      activateTarget_rejected [of tr targetId st ctx s1 e]
    by blast
qed

theorem transport_errors_propagate_unless_list_query_retried_witness:
  "waitForTargetToBeCreated (example_broken_transport ''List'') 1 example_session =
     (Inl (Rejected None),
      example_session\<lparr>remote := 1, events := [ListCalled, Logged (Rejected None)]\<rparr>)
   \<and> waitForTargetToBeCreated (example_broken_transport ''List'') 2 example_session =
     waitForTargetToBeCreated (example_broken_transport ''List'') 1
       (example_session\<lparr>remote := 1,
          events := [ListCalled, Logged (Rejected None), Waited 100]\<rparr>)
   \<and> fst (getCriTargets example_env (example_broken_transport ''List'') None example_session)
     = Inl (Rejected None)
   \<and> createTarget (example_broken_transport ''createTarget'') ''http://example.com''
       example_session =
     (Inl (Rejected None),
      example_session\<lparr>remote := 1,
        events := [CreateTargetCalled
                     \<lparr>opt_url = ''http://example.com'', opt_browserContextId = Some ''ctx1''\<rparr>]\<rparr>)
   \<and> fst (createTarget
          (example_transport []
             (\<lambda>opts. Inl (Rejected (Some (Response (Some ''browserContextId is unknown''))))))
          ''http://example.com'' example_session)
     = Inl (Rejected (Some (Response (Some ''browserContextId is unknown''))))
   \<and> fst (createBrowserContext (example_broken_transport ''createBrowserContext'')
          ''http://example.com'' example_session)
     = Inl (Rejected None)
   \<and> (fst (getBrowserContextIdForTarget (example_broken_transport ''getTargetInfo'') ''T1''
          example_session) = Inl (Rejected None)
     \<and> fst (closeBrowserContext (example_broken_transport ''getTargetInfo'') ''T1''
          example_session) = Inl (Rejected None)
     \<and> fst (switchBrowserContext (example_broken_transport ''getTargetInfo'') ''T1''
          example_session) = Inl (Rejected None))
   \<and> fst (closeBrowserContext (example_broken_transport ''disposeBrowserContext'') ''T1''
          example_session) = Inl (Rejected None)
   \<and> fst (switchBrowserContext (example_broken_transport ''activateTarget'') ''T1''
          example_session) = Inl (Rejected None)"
proof -
  have w1:
    "waitForTargetToBeCreated (example_broken_transport ''List'') 1 example_session =
     (Inl (Rejected None),
      example_session\<lparr>remote := 1, events := [ListCalled, Logged (Rejected None)]\<rparr>)"
    using transport_errors_propagate_unless_list_query_retried
          [where tr = "example_broken_transport ''List''" and st = example_session and n = 1
             and e = "Rejected None",
           THEN conjunct1]
    by (simp add: example_broken_transport_def example_transport_def example_session_def
          stale_context_def)
  have w2:
    "waitForTargetToBeCreated (example_broken_transport ''List'') 2 example_session =
     waitForTargetToBeCreated (example_broken_transport ''List'') 1
       (example_session\<lparr>remote := 1,
          events := [ListCalled, Logged (Rejected None), Waited 100]\<rparr>)"
    using transport_errors_propagate_unless_list_query_retried
          [where tr = "example_broken_transport ''List''" and st = example_session and n = 2
             and e = "Rejected None",
           THEN conjunct2, THEN conjunct1]
    by (simp add: example_broken_transport_def example_transport_def example_session_def
          stale_context_def)
  have w3:
    "fst (getCriTargets example_env (example_broken_transport ''List'') None example_session)
     = Inl (Rejected None)"
    using transport_errors_propagate_unless_list_query_retried
          [where tr = "example_broken_transport ''List''" and st = example_session
             and e = "Rejected None" and env = example_env and ident = None,
           THEN conjunct2, THEN conjunct2, THEN conjunct1]
    by (simp add: example_broken_transport_def example_transport_def example_session_def
          stale_context_def)
  have w4:
    "createTarget (example_broken_transport ''createTarget'') ''http://example.com''
       example_session =
     (Inl (Rejected None),
      example_session\<lparr>remote := 1,
        events := [CreateTargetCalled
                     \<lparr>opt_url = ''http://example.com'', opt_browserContextId = Some ''ctx1''\<rparr>]\<rparr>)"
    using transport_errors_propagate_unless_list_query_retried
          [where tr = "example_broken_transport ''createTarget''" and st = example_session
             and e = "Rejected None" and u = "''http://example.com''",
           THEN conjunct2, THEN conjunct2, THEN conjunct2, THEN conjunct1]
    by (simp add: example_broken_transport_def example_transport_def example_session_def
          stale_context_def)
  have w5:
    "fst (createTarget
          (example_transport []
             (\<lambda>opts. Inl (Rejected (Some (Response (Some ''browserContextId is unknown''))))))
          ''http://example.com'' example_session)
     = Inl (Rejected (Some (Response (Some ''browserContextId is unknown''))))"
    using transport_errors_propagate_unless_list_query_retried
          [where tr = "example_transport []
                  (\<lambda>opts. Inl (Rejected (Some (Response (Some ''browserContextId is unknown'')))))"
             and st = example_session and u = "''http://example.com''" and ?s1.0 = 1
             and e = "Rejected (Some (Response (Some ''browserContextId is unknown'')))"
             and ?e2.0 = "Rejected (Some (Response (Some ''browserContextId is unknown'')))",
           THEN conjunct2, THEN conjunct2, THEN conjunct2, THEN conjunct2,
           THEN conjunct1]
    by (simp add: example_broken_transport_def example_transport_def example_session_def
          stale_context_def)
  have w6:
    "fst (createBrowserContext (example_broken_transport ''createBrowserContext'')
          ''http://example.com'' example_session)
     = Inl (Rejected None)"
    using transport_errors_propagate_unless_list_query_retried
          [where tr = "example_broken_transport ''createBrowserContext''" and st = example_session
             and e = "Rejected None" and u = "''http://example.com''",
           THEN conjunct2, THEN conjunct2, THEN conjunct2, THEN conjunct2,
           THEN conjunct2, THEN conjunct1]
    by (simp add: example_broken_transport_def example_transport_def example_session_def
          stale_context_def)
  have w7:
    "fst (getBrowserContextIdForTarget (example_broken_transport ''getTargetInfo'') ''T1''
          example_session) = Inl (Rejected None)
     \<and> fst (closeBrowserContext (example_broken_transport ''getTargetInfo'') ''T1''
          example_session) = Inl (Rejected None)
     \<and> fst (switchBrowserContext (example_broken_transport ''getTargetInfo'') ''T1''
          example_session) = Inl (Rejected None)"
    using transport_errors_propagate_unless_list_query_retried
          [where tr = "example_broken_transport ''getTargetInfo''" and st = example_session
             and e = "Rejected None" and targetId = "''T1''",
           THEN conjunct2, THEN conjunct2, THEN conjunct2, THEN conjunct2,
           THEN conjunct2, THEN conjunct2, THEN conjunct1]
    by (simp add: example_broken_transport_def example_transport_def example_session_def
          stale_context_def)
  have w8:
    "fst (closeBrowserContext (example_broken_transport ''disposeBrowserContext'') ''T1''
          example_session) = Inl (Rejected None)"
    using transport_errors_propagate_unless_list_query_retried
          [where tr = "example_broken_transport ''disposeBrowserContext''" and st = example_session
             and e = "Rejected None" and targetId = "''T1''" and ctx = "Some ''ctx1''"
             and ?s1.0 = 1,
           THEN conjunct2, THEN conjunct2, THEN conjunct2, THEN conjunct2,
           THEN conjunct2, THEN conjunct2, THEN conjunct2, THEN conjunct1]
    by (simp add: example_broken_transport_def example_transport_def example_session_def
          stale_context_def)
  have w9:
    "fst (switchBrowserContext (example_broken_transport ''activateTarget'') ''T1''
          example_session) = Inl (Rejected None)"
    using transport_errors_propagate_unless_list_query_retried
          [where tr = "example_broken_transport ''activateTarget''" and st = example_session
             and e = "Rejected None" and targetId = "''T1''" and ctx = "Some ''ctx1''"
             and ?s1.0 = 1,
           THEN conjunct2, THEN conjunct2, THEN conjunct2, THEN conjunct2,
           THEN conjunct2, THEN conjunct2, THEN conjunct2, THEN conjunct2]
    by (simp add: example_broken_transport_def example_transport_def example_session_def
          stale_context_def)
  from w1 w2 w3 w4 w5 w6 w7 w8 w9 show ?thesis by (simp only: simp_thms)
qed

subsection \<open>The target registry\<close>

text \<open>
  Claim C6, as stated, for every name and identity: after \<open>register(name, id)\<close> a read
  returns \<open>id\<close>. \<open>register\<close> writes only when both arguments are truthy, so with the
  empty string as the name the call is a read, nothing is stored, and the read that follows
  returns \<open>undefined\<close>.
\<close>

theorem register_empty_name_counterexample:
  "fst (register (Some '''') None (snd (register (Some '''') (Some ''T1'') Map.empty))) \<noteq> Some ''T1''"
  by (simp add: register_def)

text \<open>
  Claim C6, amended. For every non-empty name and non-empty identities: after
  \<open>register(name, id)\<close> the read \<open>register(name)\<close> returns \<open>id\<close>, and a later write
  to the same name replaces the earlier one. For every name \<open>n\<close>: after
  \<open>unregister(n)\<close> the read returns \<open>undefined\<close>, \<open>unregister\<close> a second time or on
  an absent name changes nothing, after \<open>clearRegister()\<close> the read returns
  \<open>undefined\<close>, and the read of an unknown name returns \<open>undefined\<close> and leaves the
  registry as it is.
\<close>

theorem register_read_after_write:
  assumes "name \<noteq> []" and "id1 \<noteq> []" and "id2 \<noteq> []"
  shows "fst (register (Some name) None (snd (register (Some name) (Some id1) reg))) = Some id1
       \<and> fst (register (Some name) None
              (snd (register (Some name) (Some id2) (snd (register (Some name) (Some id1) reg)))))
           = Some id2
       \<and> fst (register (Some n) None (unregister n reg)) = None
       \<and> unregister n (unregister n reg) = unregister n reg
       \<and> (reg n = None \<longrightarrow> unregister n reg = reg)
       \<and> fst (register (Some n) None (clearRegister reg)) = None
       \<and> (reg n = None \<longrightarrow> register (Some n) None reg = (None, reg))"
  using assms by (auto simp add: register_def unregister_def clearRegister_def)

theorem register_read_after_write_witness:
  "''main'' \<noteq> [] \<and> ''T1'' \<noteq> [] \<and> ''T2'' \<noteq> []
   \<and> fst (register (Some ''main'') None (snd (register (Some ''main'') (Some ''T1'') Map.empty)))
       = Some ''T1''
   \<and> fst (register (Some ''main'') None
          (snd (register (Some ''main'') (Some ''T2'')
             (snd (register (Some ''main'') (Some ''T1'') Map.empty))))) = Some ''T2''
   \<and> fst (register (Some ''other'') None (unregister ''other'' Map.empty)) = None
   \<and> unregister ''other'' Map.empty = Map.empty"
  using register_read_after_write
          [where name = "''main''" and ?id1.0 = "''T1''" and ?id2.0 = "''T2''"
             and reg = Map.empty and n = "''other''"]
  by simp

subsection \<open>The name match\<close>

lemma registry_step_truthy:
  "stored_values_truthy reg \<Longrightarrow> stored_values_truthy (registry_step reg c)"
  by (cases c)
     (auto simp add: stored_values_truthy_def register_def unregister_def clearRegister_def
        split: option.splits if_splits)

lemma foldl_registry_step_truthy:
  "stored_values_truthy reg \<Longrightarrow> stored_values_truthy (foldl registry_step reg calls)"
  by (induction calls arbitrary: reg) (simp_all add: registry_step_truthy)

lemma registry_after_truthy: "registry_after calls k = Some v \<Longrightarrow> v \<noteq> []"
  using foldl_registry_step_truthy [of Map.empty calls]
  by (simp add: registry_after_def stored_values_truthy_def)

text \<open>
  Claim C7. On a registry reached by any sequence of \<open>register\<close>, \<open>unregister\<close> and
  \<open>clearRegister\<close> calls, and for an identifier carrying a name, \<open>isMatchingTarget\<close>
  returns \<open>true\<close> exactly when the registry maps that name to the target's id; it returns
  \<open>undefined\<close> when the name is not registered and \<open>false\<close> when it is registered to
  another id, both falsy.
\<close>

theorem isMatchingTarget_iff_registered:
  "(isMatchingTarget (registry_after calls) target (IdNamed n) = Bool True)
     = (registry_after calls n = Some (id_t target))
   \<and> truthy (isMatchingTarget (registry_after calls) target (IdNamed n))
     = (registry_after calls n = Some (id_t target))
   \<and> isMatchingTarget (registry_after calls) target (IdNamed n)
     = (case registry_after calls n of
          None \<Rightarrow> Undefined
        | Some stored \<Rightarrow> Bool (stored = id_t target))"
proof (cases "registry_after calls n")
  case None
  then show ?thesis by (simp add: isMatchingTarget_def register_def)
next
  case (Some stored)
  then have "stored \<noteq> []" by (rule registry_after_truthy)
  with Some show ?thesis by (auto simp add: isMatchingTarget_def register_def)
qed

theorem isMatchingTarget_iff_registered_witness:
  "isMatchingTarget (registry_after [Register (Some ''main'') (Some ''T1'')]) example_page
     (IdNamed ''main'') = Bool True
   \<and> isMatchingTarget (registry_after [Register (Some ''main'') (Some ''T0'')]) example_page
     (IdNamed ''main'') = Bool False
   \<and> isMatchingTarget
       (registry_after [Register (Some ''main'') (Some ''T1''), Unregister ''main'']) example_page
     (IdNamed ''main'') = Undefined"
proof -
  have eval:
    "registry_after [Register (Some ''main'') (Some ''T1'')] ''main'' = Some ''T1''"
    "registry_after [Register (Some ''main'') (Some ''T0'')] ''main'' = Some ''T0''"
    "registry_after [Register (Some ''main'') (Some ''T1''), Unregister ''main''] ''main'' = None"
    "id_t example_page = ''T1''"
    by (simp_all add: registry_after_def register_def unregister_def example_page_def)
  from isMatchingTarget_iff_registered
         [where calls = "[Register (Some ''main'') (Some ''T1'')]" and target = example_page
            and n = "''main''", THEN conjunct2, THEN conjunct2]
  have a: "isMatchingTarget (registry_after [Register (Some ''main'') (Some ''T1'')]) example_page
             (IdNamed ''main'') = Bool True"
    by (simp add: eval)
  from isMatchingTarget_iff_registered
         [where calls = "[Register (Some ''main'') (Some ''T0'')]" and target = example_page
            and n = "''main''", THEN conjunct2, THEN conjunct2]
  have b: "isMatchingTarget (registry_after [Register (Some ''main'') (Some ''T0'')]) example_page
             (IdNamed ''main'') = Bool False"
    by (simp add: eval)
  from isMatchingTarget_iff_registered
         [where calls = "[Register (Some ''main'') (Some ''T1''), Unregister ''main'']"
            and target = example_page and n = "''main''", THEN conjunct2, THEN conjunct2]
  have c: "isMatchingTarget
             (registry_after [Register (Some ''main'') (Some ''T1''), Unregister ''main''])
             example_page (IdNamed ''main'') = Undefined"
    by (simp add: eval)
  from a b c show ?thesis by simp
qed

subsection \<open>Partition by the active target\<close>

text \<open>
  Claim C8. \<open>getCriTargets()\<close> without an identifier keeps the targets of type
  \<open>page\<close> of the list the transport returned; \<open>matching\<close> is those whose id is the
  active target id, \<open>others\<close> the remaining pages, both in the order of the list. The
  result is the same for any matcher collaborators, which are not consulted.
\<close>

theorem getCriTargets_without_identifier:
  assumes "cri_List tr (remote st) = (Inr targets, s')"
  shows "getCriTargets env tr None st =
           (Inr \<lparr>matching = filter (\<lambda>t. type t = ''page'' \<and> Some (id_t t) = activeTargetId st) targets,
                 others = filter (\<lambda>t. type t = ''page'' \<and> Some (id_t t) \<noteq> activeTargetId st) targets\<rparr>,
            st\<lparr>remote := s', events := events st @ [ListCalled]\<rparr>)
       \<and> subseq (filter (\<lambda>t. type t = ''page'' \<and> Some (id_t t) = activeTargetId st) targets) targets
       \<and> subseq (filter (\<lambda>t. type t = ''page'' \<and> Some (id_t t) \<noteq> activeTargetId st) targets) targets
       \<and> getCriTargets env' tr None st = getCriTargets env tr None st"
  using assms
  by (simp add: getCriTargets_def call_List_eq Let_def)


theorem getCriTargets_without_identifier_witness:
  "getCriTargets example_env
     (example_transport
        [Inr [example_page\<lparr>id_t := ''T0''\<rparr>, example_page\<lparr>id_t := ''W1'', type := ''service_worker''\<rparr>,
              example_page, example_page\<lparr>id_t := ''T2''\<rparr>]] example_create)
     None example_session =
     (Inr \<lparr>matching = [example_page],
           others = [example_page\<lparr>id_t := ''T0''\<rparr>, example_page\<lparr>id_t := ''T2''\<rparr>]\<rparr>,
      example_session\<lparr>remote := 1, events := [ListCalled]\<rparr>)"
  using getCriTargets_without_identifier
          [where tr = "example_transport
                [Inr [example_page\<lparr>id_t := ''T0''\<rparr>,
                      example_page\<lparr>id_t := ''W1'', type := ''service_worker''\<rparr>,
                      example_page, example_page\<lparr>id_t := ''T2''\<rparr>]] example_create"
             and st = example_session and env = example_env and env' = example_env and s' = 1
             and targets = "[example_page\<lparr>id_t := ''T0''\<rparr>,
                      example_page\<lparr>id_t := ''W1'', type := ''service_worker''\<rparr>,
                      example_page, example_page\<lparr>id_t := ''T2''\<rparr>]"]
  by (simp add: example_transport_def example_session_def example_page_def)

subsection \<open>The URL match on the example of the specification\<close>

text \<open>
  Claim C9. Given what Node's \<open>url.parse\<close> and \<open>path.join\<close> return on the strings
  involved, where the parser does not throw (\<open>example.com\<close> has no host; \<open>http://example.com/\<close> and
  \<open>http://example.com\<close> both have host \<open>example.com\<close> and pathname \<open>/\<close>; joining
  the two gives \<open>example.com/\<close>), the identifier \<open>example.com\<close> is normalized to
  \<open>http://example.com\<close>, the joined host and pathname of a target at
  \<open>http://example.com/\<close> titled \<open>Example Domain\<close> equals that of the normalized
  identifier, and \<open>isMatchingUrl\<close> returns \<open>true\<close>.
\<close>

theorem isMatchingUrl_example_com:
  assumes "url_parse env ''example.com'' False = Inr bare"
      and "url_host bare = None"
      and "url_parse env ''http://example.com/'' True = Inr parsedUrl"
      and "url_host parsedUrl = Some ''example.com''"
      and "url_pathname parsedUrl = Some ''/''"
      and "url_parse env ''http://example.com'' True = Inr parsedTargetUrl"
      and "url_host parsedTargetUrl = Some ''example.com''"
      and "url_pathname parsedTargetUrl = Some ''/''"
      and "path_join env ''example.com'' ''/'' = ''example.com/''"
      and "title target = ''Example Domain''" and "url target = ''http://example.com/''"
  shows "prependHttp env ''example.com'' = Inr ''http://example.com''
       \<and> path_join env (or_empty (url_host parsedUrl)) (or_empty (url_pathname parsedUrl))
         = path_join env (or_empty (url_host parsedTargetUrl))
                        (or_empty (url_pathname parsedTargetUrl))
       \<and> fst (isMatchingUrl env target (IdString ''example.com'')) = Inr (Bool True)"
  using assms by (simp add: isMatchingUrl_def prependHttp_def Let_def or_empty_def)

theorem isMatchingUrl_example_com_witness:
  "url_parse example_env ''example.com'' False =
     Inr \<lparr>url_protocol = None, url_host = None, url_pathname = Some ''example.com'',
          url_href = ''example.com''\<rparr>
   \<and> path_join example_env ''example.com'' ''/'' = ''example.com/''
   \<and> fst (isMatchingUrl example_env example_page (IdString ''example.com'')) = Inr (Bool True)"
  using isMatchingUrl_example_com
          [where env = example_env and target = example_page
             and bare = "\<lparr>url_protocol = None, url_host = None,
                          url_pathname = Some ''example.com'', url_href = ''example.com''\<rparr>"
             and parsedUrl = "\<lparr>url_protocol = Some ''http:'', url_host = Some ''example.com'',
                               url_pathname = Some ''/'', url_href = ''http://example.com/''\<rparr>"
             and parsedTargetUrl = "\<lparr>url_protocol = Some ''http:'',
                                     url_host = Some ''example.com'', url_pathname = Some ''/'',
                                     url_href = ''http://example.com/''\<rparr>"]
  by (simp add: example_env_def example_url_parse_def example_path_join_def example_page_def)

subsection \<open>The assignment to the target's URL\<close>




end
